theory Spec2Isabelle
  imports Complex_Main
begin

section \<open>Catalog stars of \<^verbatim>\<open>skyfield/starlib.py\<close>\<close>

text \<open>
  The module holds one class, \<^verbatim>\<open>Star\<close>: the constructor stores six catalog scalars and
  calls \<^verbatim>\<open>_compute_vectors\<close>, which caches a position and a velocity vector;
  \<^verbatim>\<open>observe_from\<close> projects the cached vectors for an observer.

  Number model. A Python float is modelled as a real number and every float literal as the
  decimal fraction that is written in the source; \<^verbatim>\<open>sin\<close>, \<^verbatim>\<open>cos\<close> and \<^verbatim>\<open>sqrt\<close> are the real
  functions. Rounding, overflow, underflow, infinities and NaN of binary64 are outside
  this model. The order of the operations of every source expression is kept. A division
  is total in HOL (\<open>x / 0 = 0\<close>), so each division of the source whose divisor is not a
  constant is written with the outcome the source has for a zero divisor.
\<close>

subsection \<open>Constants\<close>

definition AU_KM :: real where
  "AU_KM = 149597870.69098932"

definition ASEC2RAD :: real where
  "ASEC2RAD = 0.000004848136811095359935899141"

definition DEG2RAD :: real where
  "DEG2RAD = 0.017453292519943296"

definition C :: real where
  "C = 299792458.0"

definition C_AUDAY :: real where
  "C_AUDAY = 173.1446326846693"

subsection \<open>Arrays of three components\<close>

text \<open>
  The cached vectors are numpy arrays of shape \<open>(3, 1)\<close>; an observer's vectors have the
  same shape. The arithmetic of numpy on them is componentwise, a scalar being broadcast
  to every component, and \<^verbatim>\<open>.sum(axis=0)\<close> adds the three components.
\<close>

type_synonym vec3 = "real \<times> real \<times> real"

fun vadd :: "vec3 \<Rightarrow> vec3 \<Rightarrow> vec3" where
  "vadd (a1, a2, a3) (b1, b2, b3) = (a1 + b1, a2 + b2, a3 + b3)"

fun vsub :: "vec3 \<Rightarrow> vec3 \<Rightarrow> vec3" where
  "vsub (a1, a2, a3) (b1, b2, b3) = (a1 - b1, a2 - b2, a3 - b3)"

fun vmul :: "vec3 \<Rightarrow> vec3 \<Rightarrow> vec3" where
  "vmul (a1, a2, a3) (b1, b2, b3) = (a1 * b1, a2 * b2, a3 * b3)"

fun vscale :: "vec3 \<Rightarrow> real \<Rightarrow> vec3" where
  "vscale (a1, a2, a3) t = (a1 * t, a2 * t, a3 * t)"

fun vsum :: "vec3 \<Rightarrow> real" where
  "vsum (a1, a2, a3) = a1 + a2 + a3"

subsection \<open>Divisions that can meet a zero divisor\<close>

text \<open>
  \<^verbatim>\<open>1.0 / (1.0 - ...)\<close> and \<^verbatim>\<open>self.pm_ra / (parallax * 365.25)\<close> divide Python floats:
  a zero divisor raises \<^verbatim>\<open>ZeroDivisionError\<close>. In \<^verbatim>\<open>1.0 / sin(...)\<close> the divisor is a numpy
  scalar: a zero divisor gives \<^verbatim>\<open>inf\<close> with a \<^verbatim>\<open>RuntimeWarning\<close>, a value the reals do
  not have, so the model stops there with \<open>NumpyDivideByZero\<close>.
\<close>

datatype error = ZeroDivisionError | NumpyDivideByZero

definition py_div :: "real \<Rightarrow> real \<Rightarrow> error + real" where
  "py_div a b = (if b = 0 then Inl ZeroDivisionError else Inr (a / b))"

definition np_div :: "real \<Rightarrow> real \<Rightarrow> error + real" where
  "np_div a b = (if b = 0 then Inl NumpyDivideByZero else Inr (a / b))"

subsection \<open>The class \<^verbatim>\<open>Star\<close>\<close>

text \<open>
  \<open>star_attrs\<close> is the object as \<^verbatim>\<open>__init__\<close> has filled it before it calls
  \<^verbatim>\<open>_compute_vectors\<close>; \<open>star\<close> is the object with the two cached attributes
  \<^verbatim>\<open>_position\<close> and \<^verbatim>\<open>_velocity\<close> (an Isabelle name cannot start with an underscore).
\<close>

record star_attrs =
  ra :: real
  dec :: real
  pm_ra :: real
  pm_dec :: real
  parallax :: real
  radial_velocity :: real

record star = star_attrs +
  cached_position :: vec3
  cached_velocity :: vec3

text \<open>The local variables of \<^verbatim>\<open>_compute_vectors\<close> when it returns.\<close>

record locals =
  l_parallax :: real
  l_dist :: real
  l_r :: real
  l_d :: real
  l_cra :: real
  l_sra :: real
  l_cdc :: real
  l_sdc :: real
  l_k :: real
  l_pmr :: real
  l_pmd :: real
  l_rvl :: real

text \<open>
  \<^verbatim>\<open>_compute_vectors\<close>, line by line. The result is the object with its two new
  attributes, and the final values of the locals; an exception leaves \<^verbatim>\<open>__init__\<close>, so
  that no object is built.
\<close>

definition compute_vectors :: "star_attrs \<Rightarrow> error + (star \<times> locals)" where
  "compute_vectors self =
    (let parallax0 = parallax self;
         parallax1 = (if parallax0 \<le> 0.0 then 0.000001 else parallax0)
     in case np_div 1.0 (sin (parallax1 * 0.001 * ASEC2RAD)) of
       Inl e \<Rightarrow> Inl e
     | Inr dist1 \<Rightarrow>
        (let r = ra self * 15.0 * DEG2RAD;
             d = dec self * DEG2RAD;
             cra = cos r;
             sra = sin r;
             cdc = cos d;
             sdc = sin d;
             position0 = (dist1 * cdc * cra, dist1 * cdc * sra, dist1 * sdc)
         in case py_div 1.0 (1.0 - radial_velocity self / C * 1000.0) of
           Inl e \<Rightarrow> Inl e
         | Inr k \<Rightarrow>
            (case py_div (pm_ra self) (parallax1 * 365.25) of
               Inl e \<Rightarrow> Inl e
             | Inr qr \<Rightarrow>
                (case py_div (pm_dec self) (parallax1 * 365.25) of
                   Inl e \<Rightarrow> Inl e
                 | Inr qd \<Rightarrow>
                    (let pmr = qr * k;
                         pmd = qd * k;
                         rvl = radial_velocity self * 86400.0 / AU_KM * k;
                         velocity0 =
                           (- pmr * sra - pmd * sdc * cra + rvl * cdc * cra,
                              pmr * cra - pmd * sdc * sra + rvl * cdc * sra,
                              pmd * cdc + rvl * sdc)
                     in Inr (star_attrs.extend self
                               (star.fields position0 velocity0),
                             \<lparr>l_parallax = parallax1, l_dist = dist1, l_r = r, l_d = d,
                              l_cra = cra, l_sra = sra, l_cdc = cdc, l_sdc = sdc,
                              l_k = k, l_pmr = pmr, l_pmd = pmd, l_rvl = rvl\<rparr>))))))"

text \<open>
  \<^verbatim>\<open>Star(ra, dec, pm_ra, pm_dec, parallax, radial_velocity)\<close>; the last four arguments
  default to \<open>0.0\<close> in the source.
\<close>

definition init :: "real \<Rightarrow> real \<Rightarrow> real \<Rightarrow> real \<Rightarrow> real \<Rightarrow> real \<Rightarrow> error + star" where
  "init ra0 dec0 pm_ra0 pm_dec0 parallax0 radial_velocity0 =
    (let self = \<lparr>ra = ra0, dec = dec0, pm_ra = pm_ra0, pm_dec = pm_dec0,
                 parallax = parallax0, radial_velocity = radial_velocity0\<rparr>
     in case compute_vectors self of
       Inl e \<Rightarrow> Inl e
     | Inr (self', ls) \<Rightarrow> Inr self')"

subsection \<open>Observers and observations\<close>

text \<open>
  An observer is read through \<^verbatim>\<open>observer.position\<close>, \<^verbatim>\<open>observer.velocity\<close> and
  \<^verbatim>\<open>observer.jd\<close>; of the time object only \<^verbatim>\<open>jd.tdb\<close> is read.
\<close>

record julian_date =
  tdb :: real

record observer =
  position :: vec3
  velocity :: vec3
  jd :: julian_date

text \<open>
  Modelled from the spec: the class \<^verbatim>\<open>GCRS\<close> of \<^verbatim>\<open>skyfield/coordinates.py\<close> is not part of
  the source. The spec describes its constructor as taking the relative position, the
  relative velocity and the epoch, and returning a bundle that the caller then annotates
  with \<^verbatim>\<open>observer\<close>, \<^verbatim>\<open>distance\<close> and \<^verbatim>\<open>lighttime\<close>. The three annotations are absent
  (\<open>None\<close>) until they are assigned.
\<close>

record gcrs =
  g_position :: vec3
  g_velocity :: vec3
  g_jd :: julian_date
  observer :: "observer option"
  distance :: "real option"
  lighttime :: "real option"

definition GCRS :: "vec3 \<Rightarrow> vec3 \<Rightarrow> julian_date \<Rightarrow> gcrs" where
  "GCRS p v t =
    \<lparr>g_position = p, g_velocity = v, g_jd = t,
     observer = None, distance = None, lighttime = None\<rparr>"

text \<open>
  \<^verbatim>\<open>observe_from\<close>. The function \<^verbatim>\<open>light_time_difference\<close> of \<^verbatim>\<open>skyfield/relativity.py\<close>
  and the constant \<^verbatim>\<open>T0\<close> of \<^verbatim>\<open>skyfield/timescales.py\<close> are not part of the source: they
  are the first two parameters. The method assigns to local names only, and
  \<open>position + velocity * ...\<close> builds a new array; the object is returned next to the
  result, so that what a call does to the object is part of the model.
\<close>

definition observe_from ::
    "(vec3 \<Rightarrow> vec3 \<Rightarrow> real) \<Rightarrow> real \<Rightarrow> star \<Rightarrow> observer \<Rightarrow> star \<times> gcrs" where
  "observe_from light_time_difference T0 self observer0 =
    (let position0 = cached_position self;
         velocity0 = cached_velocity self;
         jd0 = jd observer0;
         dt = light_time_difference position0 (position observer0);
         position1 = vadd position0 (vscale velocity0 (T0 - tdb jd0 - dt));
         vector = vsub position1 (position observer0);
         distance0 = sqrt (vsum (vmul vector vector));
         lighttime0 = distance0 / C_AUDAY;
         g0 = GCRS vector (vsub velocity0 (velocity observer0)) jd0;
         g1 = g0\<lparr>observer := Some observer0\<rparr>;
         g2 = g1\<lparr>distance := Some distance0\<rparr>;
         g3 = g2\<lparr>lighttime := Some lighttime0\<rparr>
     in (self, g3))"

text \<open>
  A sequence of calls of \<^verbatim>\<open>observe_from\<close> on one object, one call for each observer of the
  list, every call on the object as the call before has left it.
\<close>

fun observe_from_calls ::
    "(vec3 \<Rightarrow> vec3 \<Rightarrow> real) \<Rightarrow> real \<Rightarrow> star \<Rightarrow> observer list \<Rightarrow> star \<times> gcrs list" where
  "observe_from_calls light_time_difference T0 self [] = (self, [])"
| "observe_from_calls light_time_difference T0 self (ob # obs) =
    (case observe_from light_time_difference T0 self ob of
       (self1, g) \<Rightarrow>
         (case observe_from_calls light_time_difference T0 self1 obs of
            (self2, gs) \<Rightarrow> (self2, g # gs)))"

section \<open>Properties\<close>

subsection \<open>When the constructor returns an object\<close>

lemma sin_small_pos: "0 < x \<Longrightarrow> x < 2 \<Longrightarrow> sin (x::real) \<noteq> 0"
  using sin_gt_zero_02[of x] by simp

lemma sin_arg_1000:
  "sin ((if (1000::real) \<le> 0 then 0.000001 else 1000) * 0.001 * ASEC2RAD) \<noteq> 0"
  by (rule sin_small_pos) (simp_all add: ASEC2RAD_def)

lemma sin_arg_sentinel:
  "e \<le> 0 \<Longrightarrow> sin ((if (e::real) \<le> 0 then 0.000001 else e) * 0.001 * ASEC2RAD) \<noteq> 0"
  by (rule sin_small_pos) (simp_all add: ASEC2RAD_def)

lemma compute_vectors_ok:
  assumes "sin ((if parallax self \<le> 0 then 0.000001 else parallax self) * 0.001 * ASEC2RAD) \<noteq> 0"
    and "radial_velocity self * 1000 \<noteq> C"
  shows "\<exists>s ls. compute_vectors self = Inr (s, ls)"
  using assms unfolding compute_vectors_def Let_def py_div_def np_div_def C_def
  by (auto split: if_splits sum.splits)


lemma init_ok:
  assumes "sin ((if e \<le> 0 then 0.000001 else e) * 0.001 * ASEC2RAD) \<noteq> 0"
    and "f * 1000 \<noteq> C"
  shows "\<exists>s. init a b c d e f = Inr s"
  using assms unfolding init_def compute_vectors_def Let_def py_div_def np_div_def C_def
  by (cases "e \<le> 0") (auto split: sum.splits)

lemma init_fields:
  assumes "init a b c d e f = Inr s"
  shows "ra s = a" "dec s = b" "pm_ra s = c" "pm_dec s = d" "parallax s = e"
    "radial_velocity s = f"
  using assms unfolding init_def compute_vectors_def Let_def py_div_def np_div_def
  by (auto split: sum.splits if_splits simp: star_attrs.defs star.defs)

subsection \<open>The cached vectors\<close>

text \<open>
  C1. For every star that the constructor returns, the cached position is
  \<open>(dist * cdc * cra, dist * cdc * sra, dist * sdc)\<close>, with
  \<open>dist = 1 / sin (p_eff * 1e-3 * ASEC2RAD)\<close> for the effective parallax \<open>p_eff\<close>,
  \<open>r = ra * 15 * DEG2RAD\<close>, \<open>d = dec * DEG2RAD\<close>, and the cosines and sines of \<open>r\<close> and
  \<open>d\<close>; both constants are written with the digits of the claim.
\<close>

theorem position_formula:
  assumes "init ra0 dec0 pm_ra0 pm_dec0 parallax0 radial_velocity0 = Inr s"
  shows "cached_position s =
    (let p_eff = (if parallax0 \<le> 0 then 0.000001 else parallax0);
         dst = 1 / sin (p_eff * 0.001 * 0.000004848136811095359935899141);
         r = ra0 * 15 * 0.017453292519943296;
         d = dec0 * 0.017453292519943296;
         cra = cos r; sra = sin r; cdc = cos d; sdc = sin d
     in (dst * cdc * cra, dst * cdc * sra, dst * sdc))"
  using assms
  unfolding init_def compute_vectors_def Let_def py_div_def np_div_def ASEC2RAD_def DEG2RAD_def
  by (cases "parallax0 \<le> 0")
    (auto split: sum.splits if_splits simp: star_attrs.defs star.defs)

theorem position_formula_witness:
  "\<exists>s. init 6 30 0 0 1000 0 = Inr s \<and> cached_position s =
    (let p_eff = (if (1000::real) \<le> 0 then 0.000001 else 1000);
         dst = 1 / sin (p_eff * 0.001 * 0.000004848136811095359935899141);
         r = 6 * 15 * 0.017453292519943296;
         d = 30 * 0.017453292519943296;
         cra = cos r; sra = sin r; cdc = cos d; sdc = sin d
     in (dst * cdc * cra, dst * cdc * sra, dst * sdc))"
proof -
  obtain s where s: "init 6 30 0 0 1000 0 = Inr s"
    using init_ok[OF sin_arg_1000, of 0 6 30 0 0] by (auto simp: C_def)
  from position_formula[OF s] s show ?thesis by blast
qed

text \<open>
  C2. For every star that the constructor returns, the cached velocity is the vector of
  the claim, with \<open>k = 1 / (1 - radial_velocity / C * 1000)\<close>,
  \<open>pmr = pm_ra / (p_eff * 365.25) * k\<close>, \<open>pmd = pm_dec / (p_eff * 365.25) * k\<close> and
  \<open>rvl = radial_velocity * 86400 / AU_KM * k\<close>; \<open>C\<close> and \<open>AU_KM\<close> are written with the
  digits of the claim.
\<close>

theorem velocity_formula:
  assumes "init ra0 dec0 pm_ra0 pm_dec0 parallax0 radial_velocity0 = Inr s"
  shows "cached_velocity s =
    (let p_eff = (if parallax0 \<le> 0 then 0.000001 else parallax0);
         r = ra0 * 15 * DEG2RAD;
         d = dec0 * DEG2RAD;
         cra = cos r; sra = sin r; cdc = cos d; sdc = sin d;
         k = 1 / (1 - radial_velocity0 / 299792458.0 * 1000);
         pmr = pm_ra0 / (p_eff * 365.25) * k;
         pmd = pm_dec0 / (p_eff * 365.25) * k;
         rvl = radial_velocity0 * 86400 / 149597870.69098932 * k
     in (- pmr * sra - pmd * sdc * cra + rvl * cdc * cra,
           pmr * cra - pmd * sdc * sra + rvl * cdc * sra,
           pmd * cdc + rvl * sdc))"
  using assms
  unfolding init_def compute_vectors_def Let_def py_div_def np_div_def C_def AU_KM_def
  by (cases "parallax0 \<le> 0")
    (auto split: sum.splits if_splits simp: star_attrs.defs star.defs mult_ac)

theorem velocity_formula_witness:
  "\<exists>s. init 6 30 1 2 1000 20 = Inr s \<and> cached_velocity s =
    (let p_eff = (if (1000::real) \<le> 0 then 0.000001 else 1000);
         r = 6 * 15 * DEG2RAD;
         d = 30 * DEG2RAD;
         cra = cos r; sra = sin r; cdc = cos d; sdc = sin d;
         k = 1 / (1 - 20 / 299792458.0 * 1000);
         pmr = 1 / (p_eff * 365.25) * k;
         pmd = 2 / (p_eff * 365.25) * k;
         rvl = 20 * 86400 / 149597870.69098932 * k
     in (- pmr * sra - pmd * sdc * cra + rvl * cdc * cra,
           pmr * cra - pmd * sdc * sra + rvl * cdc * sra,
           pmd * cdc + rvl * sdc))"
proof -
  obtain s where s: "init 6 30 1 2 1000 20 = Inr s"
    using init_ok[OF sin_arg_1000, of 20 6 30 1 2] by (auto simp: C_def)
  from velocity_formula[OF s] s show ?thesis by blast
qed

subsection \<open>Observations\<close>

lemma observe_from_fst: "fst (observe_from ltd T0 s ob) = s"
  by (simp add: observe_from_def Let_def)

lemma observe_from_calls_fst: "fst (observe_from_calls ltd T0 s obs) = s"
proof (induction obs arbitrary: s)
  case Nil
  show ?case by simp
next
  case (Cons ob obs)
  obtain s1 g where og: "observe_from ltd T0 s ob = (s1, g)"
    by (cases "observe_from ltd T0 s ob")
  with observe_from_fst[of ltd T0 s ob] have s1: "s1 = s" by simp
  obtain s2 gs where ogs: "observe_from_calls ltd T0 s1 obs = (s2, gs)"
    by (cases "observe_from_calls ltd T0 s1 obs")
  with Cons.IH[of s1] have "s2 = s1" by simp
  with og ogs s1 show ?case by simp
qed

text \<open>
  C3. For every star and every observer, the bundle that \<^verbatim>\<open>observe_from\<close> returns has the
  vector \<open>position + velocity * (T0 - jd.tdb - dt) - observer.position\<close> with
  \<open>dt = light_time_difference(position, observer.position)\<close>, as distance the square root
  of the sum of the squares of the three components of that vector, and as light time
  that distance divided by \<open>173.1446326846693\<close>.
\<close>

theorem observe_from_result:
  "(let g = snd (observe_from ltd T0 s ob);
        dt = ltd (cached_position s) (position ob);
        vector = vsub (vadd (cached_position s)
                         (vscale (cached_velocity s) (T0 - tdb (jd ob) - dt)))
                   (position ob);
        nrm = sqrt ((fst vector)\<^sup>2 + (fst (snd vector))\<^sup>2 + (snd (snd vector))\<^sup>2)
    in g_position g = vector \<and> distance g = Some nrm
       \<and> lighttime g = Some (nrm / 173.1446326846693))"
proof -
  obtain x y z where v:
    "vsub (vadd (cached_position s)
             (vscale (cached_velocity s)
                (T0 - tdb (jd ob) - ltd (cached_position s) (position ob))))
       (position ob) = (x, y, z)"
    by (metis prod_cases3)
  show ?thesis
    by (simp add: observe_from_def Let_def GCRS_def C_AUDAY_def v power2_eq_square)
qed

text \<open>
  C9. After any number of calls of \<^verbatim>\<open>observe_from\<close>, with any observers, the six scalars and
  the two cached vectors of a star are those that the constructor has stored, and the
  constructor applied to the six scalars gives the very same object again: the cached
  vectors are those that \<^verbatim>\<open>_compute_vectors\<close> produces from the six scalars.
\<close>

theorem observe_from_keeps_star:
  assumes "init a b c d e f = Inr s"
  shows "(let s' = fst (observe_from_calls ltd T0 s obs)
          in ra s' = a \<and> dec s' = b \<and> pm_ra s' = c \<and> pm_dec s' = d
             \<and> parallax s' = e \<and> radial_velocity s' = f
             \<and> cached_position s' = cached_position s
             \<and> cached_velocity s' = cached_velocity s
             \<and> init (ra s') (dec s') (pm_ra s') (pm_dec s') (parallax s')
                 (radial_velocity s') = Inr s')"
  using assms init_fields[OF assms] by (simp add: observe_from_calls_fst Let_def)

theorem observe_from_keeps_star_witness:
  "\<exists>s. init 6 30 1 2 1000 20 = Inr s \<and>
    (let s' = fst (observe_from_calls (\<lambda>p q. 0) 2451545 s
                    [\<lparr>position = (1, 0, 0), velocity = (0, 0, 0), jd = \<lparr>tdb = 2451545\<rparr>\<rparr>,
                     \<lparr>position = (0, 1, 0), velocity = (0, 1, 0), jd = \<lparr>tdb = 2451546\<rparr>\<rparr>])
     in ra s' = 6 \<and> dec s' = 30 \<and> pm_ra s' = 1 \<and> pm_dec s' = 2
        \<and> parallax s' = 1000 \<and> radial_velocity s' = 20
        \<and> cached_position s' = cached_position s
        \<and> cached_velocity s' = cached_velocity s
        \<and> init (ra s') (dec s') (pm_ra s') (pm_dec s') (parallax s')
            (radial_velocity s') = Inr s')"
proof -
  obtain s where s: "init 6 30 1 2 1000 20 = Inr s"
    using init_ok[OF sin_arg_1000, of 20 6 30 1 2] by (auto simp: C_def)
  from observe_from_keeps_star[OF s] s show ?thesis by blast
qed

subsection \<open>Bounds on the sine of a small angle\<close>

lemma sin_lower:
  assumes "0 \<le> (x::real)" and "x \<le> 1 / 1000"
  shows "x * (1 - 1 / 10^6) \<le> sin x"
proof -
  have c: "sin_coeff 0 = 0" "sin_coeff (Suc 0) = 1" "sin_coeff (Suc (Suc 0)) = 0"
    by (simp_all add: sin_coeff_def)
  have s: "(\<Sum>m<3. sin_coeff m * x ^ m) = x"
    unfolding numeral_3_eq_3 sum.lessThan_Suc c by simp
  have f: "inverse (fact 3) = (1 / 6 :: real)"
    unfolding numeral_3_eq_3 by simp
  have a: "\<bar>x\<bar> ^ 3 = x * (x * x)" using assms(1) by (simp add: power3_eq_cube)
  have "\<bar>sin x - (\<Sum>m<3. sin_coeff m * x ^ m)\<bar> \<le> inverse (fact 3) * \<bar>x\<bar> ^ 3"
    by (rule Maclaurin_sin_bound)
  then have b: "\<bar>sin x - x\<bar> \<le> 1 / 6 * (x * (x * x))"
    unfolding s f a .
  define y where "y = x * (x * x)"
  have "x * x \<le> (1 / 1000) * (1 / 1000)"
    using assms by (intro mult_mono) simp_all
  then have "x * (x * x) \<le> x * ((1 / 1000) * (1 / 1000))"
    using assms(1) by (intro mult_left_mono) simp_all
  then have c: "y \<le> x * (1 / 10^6)" by (simp add: y_def)
  from b have d: "\<bar>sin x - x\<bar> \<le> 1 / 6 * y" by (simp add: y_def)
  have "x * (1 - 1 / 10^6) = x - x * (1 / 10^6)" by (simp add: algebra_simps)
  with c d assms(1) show ?thesis by linarith
qed

lemma gigaparsec_bounds:
  "2.0626 * 10^14 < 1 / sin (0.000001 * 0.001 * ASEC2RAD)"
  "1 / sin (0.000001 * 0.001 * ASEC2RAD) < 2.0627 * 10^14"
proof -
  let ?x = "0.000001 * 0.001 * ASEC2RAD"
  have pos: "0 < ?x" and lt2: "?x < 2" and small: "?x \<le> 1 / 1000"
    by (simp_all add: ASEC2RAD_def)
  have sp: "0 < sin ?x" using sin_gt_zero_02[OF pos lt2] .
  have up: "sin ?x \<le> ?x" using pos by (intro sin_x_le_x) simp
  have lo: "?x * (1 - 1 / 10^6) \<le> sin ?x" using pos small by (intro sin_lower) simp_all
  have a: "?x * (2.0626 * 10^14) < 1" by (simp add: ASEC2RAD_def)
  have b: "1 < ?x * (1 - 1 / 10^6) * (2.0627 * 10^14)" by (simp add: ASEC2RAD_def)
  have "sin ?x * (2.0626 * 10^14) \<le> ?x * (2.0626 * 10^14)"
    using up by (intro mult_right_mono) simp_all
  with a have "sin ?x * (2.0626 * 10^14) < 1" by linarith
  with sp show "2.0626 * 10^14 < 1 / sin ?x" by (simp add: pos_less_divide_eq mult.commute)
  have "?x * (1 - 1 / 10^6) * (2.0627 * 10^14) \<le> sin ?x * (2.0627 * 10^14)"
    using lo by (intro mult_right_mono) simp_all
  with b have "1 < sin ?x * (2.0627 * 10^14)" by linarith
  with sp show "1 / sin ?x < 2.0627 * 10^14" by (simp add: pos_divide_less_eq mult.commute)
qed

lemma claimed_distance_bound:
  "1 / sin (0.001 * ASEC2RAD) < 2.1 * 10^8"
proof -
  let ?x = "0.001 * ASEC2RAD"
  have pos: "0 < ?x" and lt2: "?x < 2" and small: "?x \<le> 1 / 1000"
    by (simp_all add: ASEC2RAD_def)
  have sp: "0 < sin ?x" using sin_gt_zero_02[OF pos lt2] .
  have lo: "?x * (1 - 1 / 10^6) \<le> sin ?x" using pos small by (intro sin_lower) simp_all
  have b: "1 < ?x * (1 - 1 / 10^6) * (2.1 * 10^8)" by (simp add: ASEC2RAD_def)
  have "?x * (1 - 1 / 10^6) * (2.1 * 10^8) \<le> sin ?x * (2.1 * 10^8)"
    using lo by (intro mult_right_mono) simp_all
  with b have "1 < sin ?x * (2.1 * 10^8)" by linarith
  with sp show "1 / sin ?x < 2.1 * 10^8" by (simp add: pos_divide_less_eq mult.commute)
qed

subsection \<open>The parallax sentinel and the Doppler factor\<close>

text \<open>
  C4. A star built with a parallax that is not positive has the cached position and the
  cached velocity of the star built with the same other five arguments and the parallax
  \<open>1e-6\<close>; for a positive parallax the local \<^verbatim>\<open>parallax\<close> keeps the argument, and the
  local \<^verbatim>\<open>dist\<close> is \<open>1 / sin (parallax * 1e-3 * ASEC2RAD)\<close>.
\<close>

theorem sentinel_parallax:
  assumes "init a b c d p v = Inr s"
  shows "(p \<le> 0 \<longrightarrow>
            (\<exists>s'. init a b c d 0.000001 v = Inr s'
                  \<and> cached_position s = cached_position s'
                  \<and> cached_velocity s = cached_velocity s'))
       \<and> (0 < p \<longrightarrow>
            (\<exists>ls. compute_vectors \<lparr>ra = a, dec = b, pm_ra = c, pm_dec = d, parallax = p,
                      radial_velocity = v\<rparr> = Inr (s, ls)
                  \<and> l_parallax ls = p
                  \<and> l_dist ls = 1 / sin (p * 0.001 * ASEC2RAD)))"
  using assms
  unfolding init_def compute_vectors_def Let_def py_div_def np_div_def
  by (cases "p \<le> 0")
    (auto split: sum.splits if_splits simp: star_attrs.defs star.defs mult_ac)

theorem sentinel_parallax_witness:
  "(\<exists>s. init 6 30 1 2 (- 5) 20 = Inr s
      \<and> (\<exists>s'. init 6 30 1 2 0.000001 20 = Inr s'
                  \<and> cached_position s = cached_position s'
                  \<and> cached_velocity s = cached_velocity s'))
   \<and> (\<exists>s ls. init 6 30 1 2 1000 20 = Inr s
        \<and> compute_vectors \<lparr>ra = 6, dec = 30, pm_ra = 1, pm_dec = 2, parallax = 1000,
                      radial_velocity = 20\<rparr> = Inr (s, ls)
        \<and> l_parallax ls = 1000
        \<and> l_dist ls = 1 / sin (1000 * 0.001 * ASEC2RAD))"
proof -
  obtain s1 where s1: "init 6 30 1 2 (- 5) 20 = Inr s1"
    using init_ok[OF sin_arg_sentinel, of "- 5" 20 6 30 1 2] by (auto simp: C_def)
  obtain s2 where s2: "init 6 30 1 2 1000 20 = Inr s2"
    using init_ok[OF sin_arg_1000, of 20 6 30 1 2] by (auto simp: C_def)
  from sentinel_parallax[OF s1] s1 have "\<exists>s. init 6 30 1 2 (- 5) 20 = Inr s
      \<and> (\<exists>s'. init 6 30 1 2 0.000001 20 = Inr s'
                  \<and> cached_position s = cached_position s'
                  \<and> cached_velocity s = cached_velocity s')" by simp
  moreover from sentinel_parallax[OF s2] s2 have "\<exists>s ls. init 6 30 1 2 1000 20 = Inr s
        \<and> compute_vectors \<lparr>ra = 6, dec = 30, pm_ra = 1, pm_dec = 2, parallax = 1000,
                      radial_velocity = 20\<rparr> = Inr (s, ls)
        \<and> l_parallax ls = 1000
        \<and> l_dist ls = 1 / sin (1000 * 0.001 * ASEC2RAD)" by auto
  ultimately show ?thesis by blast
qed

text \<open>
  C5. For a star built with the radial velocity \<open>0\<close>, the Doppler factor \<^verbatim>\<open>k\<close> is \<open>1\<close>, so
  that \<^verbatim>\<open>pmr\<close> and \<^verbatim>\<open>pmd\<close> are the proper motions divided by \<open>p_eff * 365.25\<close> and
  \<^verbatim>\<open>rvl\<close> is \<open>0\<close>; when both proper motions are \<open>0\<close> as well, the cached velocity is
  \<open>(0, 0, 0)\<close>, whatever the right ascension, the declination and the parallax are.
\<close>

theorem doppler_factor_at_rest:
  assumes "compute_vectors \<lparr>ra = a, dec = b, pm_ra = c, pm_dec = d, parallax = e,
             radial_velocity = 0\<rparr> = Inr (s, ls)"
  shows "init a b c d e 0 = Inr s
         \<and> l_k ls = 1
         \<and> l_pmr ls = c / (l_parallax ls * 365.25)
         \<and> l_pmd ls = d / (l_parallax ls * 365.25)
         \<and> l_rvl ls = 0
         \<and> (c = 0 \<and> d = 0 \<longrightarrow> cached_velocity s = (0, 0, 0))"
  using assms unfolding init_def compute_vectors_def Let_def py_div_def np_div_def
  by (cases "e \<le> 0") (auto split: sum.splits if_splits simp: star_attrs.defs star.defs)

theorem doppler_factor_at_rest_witness:
  "\<exists>s ls. compute_vectors \<lparr>ra = 6, dec = 30, pm_ra = 0, pm_dec = 0, parallax = 1000,
             radial_velocity = 0\<rparr> = Inr (s, ls)
         \<and> init 6 30 0 0 1000 0 = Inr s
         \<and> l_k ls = 1
         \<and> l_pmr ls = 0 / (l_parallax ls * 365.25)
         \<and> l_pmd ls = 0 / (l_parallax ls * 365.25)
         \<and> l_rvl ls = 0
         \<and> cached_velocity s = (0, 0, 0)"
proof -
  obtain s ls where cv: "compute_vectors \<lparr>ra = 6, dec = 30, pm_ra = 0, pm_dec = 0,
      parallax = 1000, radial_velocity = 0\<rparr> = Inr (s, ls)"
    using compute_vectors_ok[of "\<lparr>ra = 6, dec = 30, pm_ra = 0, pm_dec = 0,
      parallax = 1000, radial_velocity = 0\<rparr>"] sin_arg_1000 by (auto simp: C_def)
  from doppler_factor_at_rest[OF cv] cv show ?thesis by auto
qed

subsection \<open>The locals and the vectors of a star\<close>

lemma compute_vectors_locals:
  assumes "compute_vectors self = Inr (s, ls)"
  shows "l_parallax ls = (if parallax self \<le> 0 then 0.000001 else parallax self)"
    and "l_dist ls = 1 / sin (l_parallax ls * 0.001 * ASEC2RAD)"
    and "l_r ls = ra self * 15 * DEG2RAD"
    and "l_d ls = dec self * DEG2RAD"
    and "l_cra ls = cos (l_r ls)"
    and "l_sra ls = sin (l_r ls)"
    and "l_cdc ls = cos (l_d ls)"
    and "l_sdc ls = sin (l_d ls)"
    and "l_k ls = 1 / (1 - radial_velocity self / C * 1000)"
    and "l_pmr ls = pm_ra self / (l_parallax ls * 365.25) * l_k ls"
    and "l_pmd ls = pm_dec self / (l_parallax ls * 365.25) * l_k ls"
    and "l_rvl ls = radial_velocity self * 86400 / AU_KM * l_k ls"
  using assms unfolding compute_vectors_def Let_def py_div_def np_div_def
  by (auto split: if_splits sum.splits)

lemma compute_vectors_star:
  assumes "compute_vectors self = Inr (s, ls)"
  shows "cached_position s =
           (l_dist ls * l_cdc ls * l_cra ls, l_dist ls * l_cdc ls * l_sra ls,
            l_dist ls * l_sdc ls)"
    and "cached_velocity s =
           (- l_pmr ls * l_sra ls - l_pmd ls * l_sdc ls * l_cra ls
              + l_rvl ls * l_cdc ls * l_cra ls,
            l_pmr ls * l_cra ls - l_pmd ls * l_sdc ls * l_sra ls
              + l_rvl ls * l_cdc ls * l_sra ls,
            l_pmd ls * l_cdc ls + l_rvl ls * l_sdc ls)"
  using assms unfolding compute_vectors_def Let_def py_div_def np_div_def
  by (auto split: if_splits sum.splits simp: star_attrs.defs star.defs)

lemma sentinel_star:
  assumes "init 6 0 0 0 0 0 = Inr s"
  shows "cached_position s =
           (1 / sin (0.000001 * 0.001 * ASEC2RAD) * cos (6 * 15 * DEG2RAD),
            1 / sin (0.000001 * 0.001 * ASEC2RAD) * sin (6 * 15 * DEG2RAD), 0)"
    and "cached_velocity s = (0, 0, 0)"
  using assms unfolding init_def compute_vectors_def Let_def py_div_def np_div_def
  by (auto split: sum.splits if_splits simp: star_attrs.defs star.defs)

lemma sentinel_star_exists: "\<exists>s. init 6 0 0 0 0 0 = Inr s"
  using init_ok[OF sin_arg_sentinel, of 0 0 6 0 0 0] by (simp add: C_def)

lemma norm_in_plane:
  assumes "0 < (D::real)"
  shows "sqrt (D * cos r * (D * cos r) + D * sin r * (D * sin r) + 0 * 0) = D"
proof -
  have "D * cos r * (D * cos r) + D * sin r * (D * sin r) + 0 * 0
        = D * D * (cos r * cos r + sin r * sin r)"
    by algebra
  also have "\<dots> = D * D" by (simp only: sin_cos_squared_add3 mult_1_right)
  finally show ?thesis using assms by simp
qed

lemma sentinel_star_observed:
  assumes "init 6 0 0 0 0 0 = Inr s"
  shows "distance (snd (observe_from ltd T0 s
            \<lparr>position = (0, 0, 0), velocity = (0, 0, 0), jd = \<lparr>tdb = T0\<rparr>\<rparr>))
          = Some (1 / sin (0.000001 * 0.001 * ASEC2RAD))"
    and "lighttime (snd (observe_from ltd T0 s
            \<lparr>position = (0, 0, 0), velocity = (0, 0, 0), jd = \<lparr>tdb = T0\<rparr>\<rparr>))
          = Some (1 / sin (0.000001 * 0.001 * ASEC2RAD) / 173.1446326846693)"
proof -
  let ?D = "1 / sin (0.000001 * 0.001 * ASEC2RAD)"
  have "0 < sin (0.000001 * 0.001 * ASEC2RAD)"
    by (rule sin_gt_zero_02) (simp_all add: ASEC2RAD_def)
  then have D: "0 < ?D" by simp
  note n = norm_in_plane[OF D, of "6 * 15 * DEG2RAD"]
  show "distance (snd (observe_from ltd T0 s
            \<lparr>position = (0, 0, 0), velocity = (0, 0, 0), jd = \<lparr>tdb = T0\<rparr>\<rparr>)) = Some ?D"
    unfolding observe_from_def Let_def GCRS_def sentinel_star[OF assms]
    using n by simp
  show "lighttime (snd (observe_from ltd T0 s
            \<lparr>position = (0, 0, 0), velocity = (0, 0, 0), jd = \<lparr>tdb = T0\<rparr>\<rparr>))
          = Some (?D / 173.1446326846693)"
    unfolding observe_from_def Let_def GCRS_def sentinel_star[OF assms] C_AUDAY_def
    using n by simp
qed

subsection \<open>The star without parallax, observed from the origin\<close>

text \<open>
  C6, as amended. \<^verbatim>\<open>Star(ra=6.0, dec=0.0, parallax=0.0)\<close> is built with the sentinel
  parallax \<open>1e-6\<close>. Observed from an observer at rest at the origin with \<open>jd.tdb = T0\<close>,
  whatever \<open>T0\<close> and \<^verbatim>\<open>light_time_difference\<close> are, its distance is
  \<open>1 / sin (1e-6 * 1e-3 * ASEC2RAD)\<close>, which lies between \<open>2.0626e14\<close> and \<open>2.0627e14\<close>,
  and its light time is that distance divided by \<open>173.1446326846693\<close>.
\<close>

theorem sentinel_star_distance:
  "\<exists>s. init 6 0 0 0 0 0 = Inr s \<and>
     (let g = snd (observe_from ltd T0 s
                \<lparr>position = (0, 0, 0), velocity = (0, 0, 0), jd = \<lparr>tdb = T0\<rparr>\<rparr>);
          dd = 1 / sin (0.000001 * 0.001 * ASEC2RAD)
      in distance g = Some dd \<and> lighttime g = Some (dd / 173.1446326846693)
         \<and> 2.0626 * 10^14 < dd \<and> dd < 2.0627 * 10^14)"
proof -
  obtain s where s: "init 6 0 0 0 0 0 = Inr s" using sentinel_star_exists by blast
  show ?thesis
    using s sentinel_star_observed[OF s] gigaparsec_bounds
    unfolding Let_def by blast
qed

text \<open>
  C6, as stated, fails: the distance of that observation is above \<open>2e14\<close>, while
  \<open>1 / sin (1e-3 * ASEC2RAD)\<close>, the value of the claim, is below \<open>2.1e8\<close>.
\<close>

theorem sentinel_star_distance_counterexample:
  "\<exists>s dd. init 6 0 0 0 0 0 = Inr s
      \<and> distance (snd (observe_from (\<lambda>p q. 0) 2451545 s
            \<lparr>position = (0, 0, 0), velocity = (0, 0, 0), jd = \<lparr>tdb = 2451545\<rparr>\<rparr>)) = Some dd
      \<and> 2 * 10^14 < dd
      \<and> 1 / sin (0.001 * ASEC2RAD) < 2.1 * 10^8"
proof -
  obtain s where s: "init 6 0 0 0 0 0 = Inr s" using sentinel_star_exists by blast
  have "(2::real) * 10^14 < 2.0626 * 10^14" by simp
  with gigaparsec_bounds(1) have "2 * 10^14 < 1 / sin (0.000001 * 0.001 * ASEC2RAD)"
    by linarith
  with s sentinel_star_observed(1)[OF s, of "\<lambda>p q. 0" 2451545] claimed_distance_bound
  show ?thesis by blast
qed


subsection \<open>The star at one parsec\<close>

lemma parsec_star:
  assumes "init 0 0 c d 1000 v = Inr s"
  shows "cached_position s = (1 / sin ASEC2RAD, 0, 0)"
  using assms unfolding init_def compute_vectors_def Let_def py_div_def np_div_def
  by (auto split: sum.splits if_splits simp: star_attrs.defs star.defs)

lemma parsec_star_exists: "\<exists>s. init 0 0 0 0 1000 0 = Inr s"
  using init_ok[OF sin_arg_1000, of 0 0 0 0 0] by (simp add: C_def)

lemma sin_asec_differs: "1 / sin ASEC2RAD \<noteq> 1 / sin (0.001 * ASEC2RAD)"
proof -
  have "1 \<le> pi / 2" using pi_ge_two by simp
  moreover have "ASEC2RAD \<le> 1" "0.001 * ASEC2RAD < ASEC2RAD" "0 \<le> 0.001 * ASEC2RAD"
    by (simp_all add: ASEC2RAD_def)
  ultimately have "sin (0.001 * ASEC2RAD) < sin ASEC2RAD"
    by (intro sin_monotone_2pi) linarith+
  moreover have "0 < sin (0.001 * ASEC2RAD)"
    by (rule sin_gt_zero_02) (simp_all add: ASEC2RAD_def)
  ultimately show ?thesis by (simp add: field_simps)
qed

text \<open>
  C7, as amended. A star built with \<open>ra = 0\<close>, \<open>dec = 0\<close> and \<open>parallax = 1000\<close> has the
  cached position \<open>(dist, 0, 0)\<close> with \<open>dist = 1 / sin (1000 * 1e-3 * ASEC2RAD)\<close>, that is
  \<open>1 / sin ASEC2RAD\<close>, whatever the proper motions and the radial velocity are.
\<close>

theorem one_parsec_position:
  assumes "init 0 0 c d 1000 v = Inr s"
  shows "cached_position s = (1 / sin (1000 * 0.001 * ASEC2RAD), 0, 0)
       \<and> 1 / sin (1000 * 0.001 * ASEC2RAD) = 1 / sin ASEC2RAD"
  using parsec_star[OF assms] by simp

theorem one_parsec_position_witness:
  "\<exists>s. init 0 0 0 0 1000 0 = Inr s
       \<and> cached_position s = (1 / sin (1000 * 0.001 * ASEC2RAD), 0, 0)
       \<and> 1 / sin (1000 * 0.001 * ASEC2RAD) = 1 / sin ASEC2RAD"
proof -
  obtain s where s: "init 0 0 0 0 1000 0 = Inr s" using parsec_star_exists by blast
  from one_parsec_position[OF s] s show ?thesis by blast
qed

text \<open>
  C7, as stated, fails: the cached position of that star is not
  \<open>(1 / sin (1e-3 * ASEC2RAD), 0, 0)\<close>.
\<close>

theorem one_parsec_position_counterexample:
  "\<exists>s. init 0 0 0 0 1000 0 = Inr s
       \<and> cached_position s \<noteq> (1 / sin (0.001 * ASEC2RAD), 0, 0)"
proof -
  obtain s where s: "init 0 0 0 0 1000 0 = Inr s" using parsec_star_exists by blast
  from parsec_star[OF s] sin_asec_differs s show ?thesis by auto
qed

subsection \<open>Negating the radial velocity\<close>

lemma doppler_pos:
  assumes "\<bar>v\<bar> * 1000 < C"
  shows "0 < 1 / (1 - v / C * 1000)"
proof -
  have C: "0 < C" by (simp add: C_def)
  have "v * 1000 < C" using assms by linarith
  then have "v * 1000 / C < 1" using C by (simp add: pos_divide_less_eq)
  then have "v / C * 1000 < 1" by simp
  then show ?thesis by simp
qed

lemma sgn_rvl:
  assumes "0 < (k::real)"
  shows "sgn (v * 86400 / AU_KM * k) = sgn v"
proof -
  define q where "q = 86400 / AU_KM * k"
  have q: "0 < q" using assms by (simp add: q_def AU_KM_def)
  have "v * 86400 / AU_KM * k = v * q" by (simp add: q_def)
  moreover have "sgn (v * q) = sgn v * sgn q" by (rule sgn_mult)
  moreover have "sgn q = 1" using q by simp
  ultimately show ?thesis by simp
qed

text \<open>
  C8, as amended. Take two stars that differ in the sign of the radial velocity \<open>v\<close> only,
  with \<open>\<bar>v\<bar> * 1000 < C\<close>. Their cached positions and their locals \<^verbatim>\<open>dist\<close> are equal, and
  the term of \<^verbatim>\<open>rvl\<close> in each component of the velocity (\<open>rvl * cdc * cra\<close>,
  \<open>rvl * cdc * sra\<close>, \<open>rvl * sdc\<close>) has the opposite sign in the two stars.
\<close>

theorem radial_velocity_negated:
  assumes cv1: "compute_vectors \<lparr>ra = a, dec = b, pm_ra = c, pm_dec = d, parallax = p,
                  radial_velocity = v\<rparr> = Inr (s1, ls1)"
    and cv2: "compute_vectors \<lparr>ra = a, dec = b, pm_ra = c, pm_dec = d, parallax = p,
                  radial_velocity = - v\<rparr> = Inr (s2, ls2)"
    and sub: "\<bar>v\<bar> * 1000 < C"
  shows "cached_position s2 = cached_position s1 \<and> l_dist ls2 = l_dist ls1
       \<and> sgn (l_rvl ls2 * l_cdc ls2 * l_cra ls2) = - sgn (l_rvl ls1 * l_cdc ls1 * l_cra ls1)
       \<and> sgn (l_rvl ls2 * l_cdc ls2 * l_sra ls2) = - sgn (l_rvl ls1 * l_cdc ls1 * l_sra ls1)
       \<and> sgn (l_rvl ls2 * l_sdc ls2) = - sgn (l_rvl ls1 * l_sdc ls1)"
proof -
  note l1 = compute_vectors_locals[OF cv1] and l2 = compute_vectors_locals[OF cv2]
  have par: "l_parallax ls2 = l_parallax ls1" using l1(1) l2(1) by simp
  have dst: "l_dist ls2 = l_dist ls1" using l1(2) l2(2) par by simp
  have r: "l_r ls2 = l_r ls1" using l1(3) l2(3) by simp
  have d: "l_d ls2 = l_d ls1" using l1(4) l2(4) by simp
  have trig: "l_cra ls2 = l_cra ls1" "l_sra ls2 = l_sra ls1"
    "l_cdc ls2 = l_cdc ls1" "l_sdc ls2 = l_sdc ls1"
    using l1(5-8) l2(5-8) r d by simp_all
  have pos: "cached_position s2 = cached_position s1"
    using compute_vectors_star(1)[OF cv1] compute_vectors_star(1)[OF cv2] dst trig by simp
  have k1: "0 < l_k ls1" using l1(9) doppler_pos[OF sub] by simp
  have "\<bar>- v\<bar> * 1000 < C" using sub by simp
  from doppler_pos[OF this] have k2: "0 < l_k ls2" using l2(9) by simp
  have s1: "sgn (l_rvl ls1) = sgn v" using l1(12) sgn_rvl[OF k1, of v] by simp
  have s2: "sgn (l_rvl ls2) = - sgn v" using l2(12) sgn_rvl[OF k2, of "- v"] by simp
  from s1 s2 have flip: "sgn (l_rvl ls2) = - sgn (l_rvl ls1)" by simp
  show ?thesis using pos dst flip trig by (simp add: sgn_mult)
qed

theorem radial_velocity_negated_witness:
  "\<exists>s1 ls1 s2 ls2.
     compute_vectors \<lparr>ra = 6, dec = 30, pm_ra = 1, pm_dec = 2, parallax = 1000,
        radial_velocity = 20\<rparr> = Inr (s1, ls1)
   \<and> compute_vectors \<lparr>ra = 6, dec = 30, pm_ra = 1, pm_dec = 2, parallax = 1000,
        radial_velocity = - 20\<rparr> = Inr (s2, ls2)
   \<and> \<bar>20\<bar> * 1000 < C
   \<and> cached_position s2 = cached_position s1 \<and> l_dist ls2 = l_dist ls1
   \<and> sgn (l_rvl ls2 * l_cdc ls2 * l_cra ls2) = - sgn (l_rvl ls1 * l_cdc ls1 * l_cra ls1)
   \<and> sgn (l_rvl ls2 * l_cdc ls2 * l_sra ls2) = - sgn (l_rvl ls1 * l_cdc ls1 * l_sra ls1)
   \<and> sgn (l_rvl ls2 * l_sdc ls2) = - sgn (l_rvl ls1 * l_sdc ls1)"
proof -
  have sub: "\<bar>20\<bar> * 1000 < C" by (simp add: C_def)
  obtain s1 ls1 where cv1: "compute_vectors \<lparr>ra = 6, dec = 30, pm_ra = 1, pm_dec = 2,
      parallax = 1000, radial_velocity = 20\<rparr> = Inr (s1, ls1)"
    using compute_vectors_ok[of "\<lparr>ra = 6, dec = 30, pm_ra = 1, pm_dec = 2,
      parallax = 1000, radial_velocity = 20\<rparr>"] sin_arg_1000 by (auto simp: C_def)
  obtain s2 ls2 where cv2: "compute_vectors \<lparr>ra = 6, dec = 30, pm_ra = 1, pm_dec = 2,
      parallax = 1000, radial_velocity = - 20\<rparr> = Inr (s2, ls2)"
    using compute_vectors_ok[of "\<lparr>ra = 6, dec = 30, pm_ra = 1, pm_dec = 2,
      parallax = 1000, radial_velocity = - 20\<rparr>"] sin_arg_1000 by (auto simp: C_def)
  from radial_velocity_negated[OF cv1 cv2 sub] cv1 cv2 sub show ?thesis by blast
qed

text \<open>
  C8, as stated, fails for a radial velocity above the speed of light: with the radial
  velocities \<open>400000\<close> and \<open>- 400000\<close> the term \<open>rvl * cdc * cra\<close> is negative in both
  stars, since the Doppler factor of the first one is negative.
\<close>

theorem radial_velocity_negated_counterexample:
  "\<exists>s1 ls1 s2 ls2.
     compute_vectors \<lparr>ra = 0, dec = 0, pm_ra = 0, pm_dec = 0, parallax = 1000,
        radial_velocity = 400000\<rparr> = Inr (s1, ls1)
   \<and> compute_vectors \<lparr>ra = 0, dec = 0, pm_ra = 0, pm_dec = 0, parallax = 1000,
        radial_velocity = - 400000\<rparr> = Inr (s2, ls2)
   \<and> l_rvl ls1 * l_cdc ls1 * l_cra ls1 < 0
   \<and> l_rvl ls2 * l_cdc ls2 * l_cra ls2 < 0"
proof -
  obtain s1 ls1 where cv1: "compute_vectors \<lparr>ra = 0, dec = 0, pm_ra = 0, pm_dec = 0,
      parallax = 1000, radial_velocity = 400000\<rparr> = Inr (s1, ls1)"
    using compute_vectors_ok[of "\<lparr>ra = 0, dec = 0, pm_ra = 0, pm_dec = 0,
      parallax = 1000, radial_velocity = 400000\<rparr>"] sin_arg_1000 by (auto simp: C_def)
  obtain s2 ls2 where cv2: "compute_vectors \<lparr>ra = 0, dec = 0, pm_ra = 0, pm_dec = 0,
      parallax = 1000, radial_velocity = - 400000\<rparr> = Inr (s2, ls2)"
    using compute_vectors_ok[of "\<lparr>ra = 0, dec = 0, pm_ra = 0, pm_dec = 0,
      parallax = 1000, radial_velocity = - 400000\<rparr>"] sin_arg_1000 by (auto simp: C_def)
  note l1 = compute_vectors_locals[OF cv1] and l2 = compute_vectors_locals[OF cv2]
  have t1: "l_cdc ls1 = 1" "l_cra ls1 = 1" using l1(3-8) by simp_all
  have t2: "l_cdc ls2 = 1" "l_cra ls2 = 1" using l2(3-8) by simp_all
  have "l_rvl ls1 < 0" using l1(9,12) by (simp add: C_def AU_KM_def)
  moreover have "l_rvl ls2 < 0" using l2(9,12) by (simp add: C_def AU_KM_def)
  ultimately show ?thesis using cv1 cv2 t1 t2 by auto
qed

subsection \<open>The divisions of the constructor\<close>


lemma init_error_iff:
  "(\<exists>e. init a b c d p v = Inl e) \<longleftrightarrow>
     sin ((if p \<le> 0 then 0.000001 else p) * 0.001 * ASEC2RAD) = 0 \<or> v * 1000 = C"
  unfolding init_def compute_vectors_def Let_def py_div_def np_div_def C_def
  by (cases "p \<le> 0") (auto split: sum.splits)






end
